theory Spec2Isabelle
  imports Main
begin

section \<open>Graph forwarder (graffiti/forwarder/forwarder.go)\<close>

subsection \<open>Data carried by the messages\<close>

text \<open>
  The graph, messages and websocket packages are collaborators of the forwarder; their
  declarations are in other files of the repository.
\<close>

type_synonym Identifier = string

text \<open>
  Modelled from the spec: \<open>graph.Node\<close>, a graph element identified by its \<open>ID\<close> and carrying
  \<open>UpdatedAt\<close> and \<open>Revision\<close>, the three fields the forwarder reads; what else a node carries
  is kept in the field \<open>Metadata\<close>.
\<close>

record Node =
  ID :: Identifier
  Metadata :: "(string \<times> string) list"
  UpdatedAt :: int
  Revision :: int

text \<open>
  Modelled from the spec: \<open>graph.Edge\<close>, the other kind of graph element, with the same three
  fields; what else an edge carries is kept in \<open>Metadata\<close>, \<open>Parent\<close> and \<open>Child\<close>.
\<close>

record Edge =
  ID :: Identifier
  Metadata :: "(string \<times> string) list"
  Parent :: Identifier
  Child :: Identifier
  UpdatedAt :: int
  Revision :: int

text \<open>
  Modelled from the spec: \<open>graph.PartiallyUpdatedOp\<close>, one field-level operation of a partial
  update.
\<close>

datatype PartiallyUpdatedOp = PartiallyUpdatedOp (Type: nat) (Key: string) (Value: string)

text \<open>
  Modelled from the spec: \<open>graph.Elements\<close>, the nodes and the edges of a graph, each as an
  ordered collection.
\<close>

record Elements =
  Nodes :: "Node list"
  Edges :: "Edge list"

text \<open>
  Modelled from the spec: \<open>messages.SyncMsg\<close>, the full snapshot, with the field the forwarder
  sets.
\<close>

record SyncMsg =
  Elements :: Elements

text \<open>
  Modelled from the spec: \<open>messages.PartiallyUpdatedMsg\<close>, with the four fields the forwarder
  sets.
\<close>

record PartiallyUpdatedMsg =
  ID :: Identifier
  UpdatedAt :: int
  Revision :: int
  Ops :: "PartiallyUpdatedOp list"

text \<open>
  Modelled from the spec: the message type tags of the messages package, the full-sync tag and
  one tag for each row of the table of graph events.
\<close>

datatype MsgType =
    SyncMsgType
  | NodeAddedMsgType
  | NodeDeletedMsgType
  | NodePartiallyUpdatedMsgType
  | EdgeAddedMsgType
  | EdgeDeletedMsgType
  | EdgePartiallyUpdatedMsgType

text \<open>The objects the forwarder passes as the payload of a message.\<close>

datatype Obj =
    ObjSyncMsg SyncMsg
  | ObjNode Node
  | ObjEdge Edge
  | ObjPartiallyUpdatedMsg PartiallyUpdatedMsg

text \<open>
  Modelled from the spec: \<open>messages.NewStructMessage(type, obj)\<close>, the envelope that carries a
  type tag and a typed payload.
\<close>

datatype StructMessage = NewStructMessage (msg_type: MsgType) (msg_obj: Obj)

text \<open>
  Modelled from the spec: \<open>ws.Speaker\<close>, the handle to the channel toward one peer, with the
  address and the port that \<open>GetAddrPort\<close> reads.
\<close>

record Speaker =
  addr :: string
  port :: int

text \<open>Modelled from the spec: \<open>Speaker.GetAddrPort\<close>, the address and the port of the peer.\<close>

definition GetAddrPort :: "Speaker \<Rightarrow> string \<times> int" where
  "GetAddrPort c = (addr c, port c)"

subsection \<open>The collaborators as state\<close>

text \<open>Arguments of a formatted log line.\<close>

datatype LogArg = ArgString string | ArgInt int

text \<open>
  Every call the forwarder makes on a collaborator, in the order it is made. \<open>Mutation\<close> is the
  one entry that is not a call of the forwarder: a mutation of the graph completed by another
  thread.
\<close>

datatype Call =
    Infof string "LogArg list"
  | Warning string
  | RLock
  | RUnlock
  | GraphElements
  | AddEventListener
  | RemoveEventListener
  | SendMessageToMaster StructMessage
  | Exit int
  | Mutation

text \<open>
  The objects the \<open>Forwarder\<close> struct points to (\<open>graph\<close>, \<open>masterElection\<close>, \<open>logger\<close>) and the
  process: the content of the graph, whether the forwarder is registered as the graph's event
  listener, how many read locks of the graph are held, the master the election currently
  knows, the messages handed to a master's channel, the exit status once the process has
  exited, and the trace of calls.
\<close>

record World =
  elements :: Elements
  listening :: bool
  rlocks :: nat
  master :: "Speaker option"
  outbox :: "(Speaker \<times> StructMessage) list"
  exit_status :: "int option"
  calls :: "Call list"

definition record_call :: "Call \<Rightarrow> World \<Rightarrow> World" where
  "record_call c w = w\<lparr>calls := calls w @ [c]\<rparr>"

text \<open>
  Modelled from the spec: the logger's \<open>Infof\<close> and \<open>Warning\<close>, which log a line: the line is
  recorded in the trace.
\<close>

definition logger_Infof :: "string \<Rightarrow> LogArg list \<Rightarrow> World \<Rightarrow> World" where
  "logger_Infof fmt args w = record_call (Infof fmt args) w"

definition logger_Warning :: "string \<Rightarrow> World \<Rightarrow> World" where
  "logger_Warning s w = record_call (Warning s) w"

text \<open>\<open>os.Exit(code)\<close>: the process exits with the given status.\<close>

definition os_Exit :: "int \<Rightarrow> World \<Rightarrow> World" where
  "os_Exit code w = record_call (Exit code) (w\<lparr>exit_status := Some code\<rparr>)"

text \<open>
  Modelled from the spec: \<open>graph.RLock\<close>, which takes the graph's shared read/write lock in read
  mode: one more holder of a read lock.
\<close>

definition graph_RLock :: "World \<Rightarrow> World" where
  "graph_RLock w = record_call RLock (w\<lparr>rlocks := Suc (rlocks w)\<rparr>)"

text \<open>Modelled from the spec: \<open>graph.RUnlock\<close>, which releases one read lock.\<close>

definition graph_RUnlock :: "World \<Rightarrow> World" where
  "graph_RUnlock w = record_call RUnlock (w\<lparr>rlocks := rlocks w - 1\<rparr>)"

text \<open>
  Modelled from the spec: a mutation of the graph by another thread, which leaves the graph
  with the given elements. It needs the graph's lock in write mode, so it completes only while
  no read lock is held; otherwise it has to wait and the graph stays as it is.
\<close>

definition graph_mutate :: "Elements \<Rightarrow> World \<Rightarrow> World" where
  "graph_mutate els w =
     (if rlocks w = 0 then record_call Mutation (w\<lparr>elements := els\<rparr>) else w)"

text \<open>
  Modelled from the spec: \<open>graph.Elements()\<close>, which returns the complete ordered collection
  of the graph's elements at the time of the call.
\<close>

definition graph_Elements :: "World \<Rightarrow> Elements \<times> World" where
  "graph_Elements w = (elements w, record_call GraphElements w)"

text \<open>
  Modelled from the spec: \<open>graph.AddEventListener\<close>, after which the forwarder listens to the
  graph's events.
\<close>

definition graph_AddEventListener :: "World \<Rightarrow> World" where
  "graph_AddEventListener w = record_call AddEventListener (w\<lparr>listening := True\<rparr>)"

text \<open>
  Modelled from the spec: \<open>graph.RemoveEventListener\<close>, after which the forwarder no longer
  listens to the graph's events.
\<close>

definition graph_RemoveEventListener :: "World \<Rightarrow> World" where
  "graph_RemoveEventListener w = record_call RemoveEventListener (w\<lparr>listening := False\<rparr>)"

text \<open>
  Modelled from the spec: \<open>MasterElection.SendMessageToMaster\<close>, which hands the message to
  the channel of the current master only; without a master there is no channel to hand it to.
\<close>

definition masterElection_SendMessageToMaster :: "StructMessage \<Rightarrow> World \<Rightarrow> World" where
  "masterElection_SendMessageToMaster m w =
     record_call (SendMessageToMaster m)
       (case master w of
          None \<Rightarrow> w
        | Some p \<Rightarrow> w\<lparr>outbox := outbox w @ [(p, m)]\<rparr>)"

subsection \<open>The forwarder\<close>

definition triggerResync :: "World \<Rightarrow> World" where
  "triggerResync w =
     (let w1 = logger_Infof ''Start a re-sync'' [] w;
          (els, w2) = graph_Elements w1;
          msg = \<lparr>Elements = els\<rparr>
      in masterElection_SendMessageToMaster (NewStructMessage SyncMsgType (ObjSyncMsg msg)) w2)"

definition OnNewMaster :: "Speaker option \<Rightarrow> World \<Rightarrow> World" where
  "OnNewMaster c w =
     (case c of
        None \<Rightarrow>
          (let w1 = logger_Warning ''Lost connection to master'' w;
               w2 = graph_RemoveEventListener w1
           in os_Exit 1 w2)
      | Some sp \<Rightarrow>
          (let (a, p) = GetAddrPort sp;
               w1 = logger_Infof ''Using %s:%d as master of topology forwarder''
                      [ArgString a, ArgInt p] w;
               w2 = graph_RLock w1;
               w3 = triggerResync w2;
               w4 = graph_AddEventListener w3
           in graph_RUnlock w4))"

definition OnNodeUpdated :: "Node \<Rightarrow> PartiallyUpdatedOp list \<Rightarrow> World \<Rightarrow> World" where
  "OnNodeUpdated n ops w =
     masterElection_SendMessageToMaster
       (NewStructMessage NodePartiallyUpdatedMsgType
          (ObjPartiallyUpdatedMsg
             \<lparr>PartiallyUpdatedMsg.ID = Node.ID n,
              UpdatedAt = Node.UpdatedAt n,
              Revision = Node.Revision n,
              Ops = ops\<rparr>)) w"

definition OnNodeAdded :: "Node \<Rightarrow> World \<Rightarrow> World" where
  "OnNodeAdded n w =
     masterElection_SendMessageToMaster (NewStructMessage NodeAddedMsgType (ObjNode n)) w"

definition OnNodeDeleted :: "Node \<Rightarrow> World \<Rightarrow> World" where
  "OnNodeDeleted n w =
     masterElection_SendMessageToMaster (NewStructMessage NodeDeletedMsgType (ObjNode n)) w"

definition OnEdgeUpdated :: "Edge \<Rightarrow> PartiallyUpdatedOp list \<Rightarrow> World \<Rightarrow> World" where
  "OnEdgeUpdated e ops w =
     masterElection_SendMessageToMaster
       (NewStructMessage EdgePartiallyUpdatedMsgType
          (ObjPartiallyUpdatedMsg
             \<lparr>PartiallyUpdatedMsg.ID = Edge.ID e,
              UpdatedAt = Edge.UpdatedAt e,
              Revision = Edge.Revision e,
              Ops = ops\<rparr>)) w"

definition OnEdgeAdded :: "Edge \<Rightarrow> World \<Rightarrow> World" where
  "OnEdgeAdded e w =
     masterElection_SendMessageToMaster (NewStructMessage EdgeAddedMsgType (ObjEdge e)) w"

definition OnEdgeDeleted :: "Edge \<Rightarrow> World \<Rightarrow> World" where
  "OnEdgeDeleted e w =
     masterElection_SendMessageToMaster (NewStructMessage EdgeDeletedMsgType (ObjEdge e)) w"

text \<open>\<open>GetMaster\<close> returns \<open>masterElection.GetMaster()\<close>: the master the election knows.\<close>

definition GetMaster :: "World \<Rightarrow> Speaker option" where
  "GetMaster w = master w"

subsection \<open>\<open>OnNewMaster\<close> statement by statement, next to a thread that mutates the graph\<close>

text \<open>
  The branch of \<open>OnNewMaster\<close> for a speaker that is not nil, one statement per step, so that
  mutations of the graph by another thread can be scheduled between any two statements. The
  program counter names the statement that runs next; \<open>msg\<close> is the local variable of
  \<open>triggerResync\<close>.
\<close>

datatype PC =
    at_Infof
  | at_RLock
  | at_resync_Infof
  | at_Elements
  | at_SendMessageToMaster
  | at_AddEventListener
  | at_RUnlock
  | at_return

record Config =
  pc :: PC
  speaker :: Speaker
  msg :: SyncMsg
  world :: World

definition start :: "Speaker \<Rightarrow> World \<Rightarrow> Config" where
  "start sp w = \<lparr>pc = at_Infof, speaker = sp, msg = \<lparr>Elements = \<lparr>Nodes = [], Edges = []\<rparr>\<rparr>, world = w\<rparr>"

definition forwarder_step :: "Config \<Rightarrow> Config" where
  "forwarder_step c =
     (case pc c of
        at_Infof \<Rightarrow>
          (let (a, p) = GetAddrPort (speaker c)
           in c\<lparr>pc := at_RLock,
                world := logger_Infof ''Using %s:%d as master of topology forwarder''
                           [ArgString a, ArgInt p] (world c)\<rparr>)
      | at_RLock \<Rightarrow> c\<lparr>pc := at_resync_Infof, world := graph_RLock (world c)\<rparr>
      | at_resync_Infof \<Rightarrow>
          c\<lparr>pc := at_Elements, world := logger_Infof ''Start a re-sync'' [] (world c)\<rparr>
      | at_Elements \<Rightarrow>
          (let (els, w') = graph_Elements (world c)
           in c\<lparr>pc := at_SendMessageToMaster, msg := \<lparr>Elements = els\<rparr>, world := w'\<rparr>)
      | at_SendMessageToMaster \<Rightarrow>
          c\<lparr>pc := at_AddEventListener,
            world := masterElection_SendMessageToMaster
                       (NewStructMessage SyncMsgType (ObjSyncMsg (msg c))) (world c)\<rparr>
      | at_AddEventListener \<Rightarrow>
          c\<lparr>pc := at_RUnlock, world := graph_AddEventListener (world c)\<rparr>
      | at_RUnlock \<Rightarrow> c\<lparr>pc := at_return, world := graph_RUnlock (world c)\<rparr>
      | at_return \<Rightarrow> c)"

text \<open>
  A schedule says which thread moves next: the forwarder runs its next statement, or another
  thread tries to complete a mutation that leaves the graph with the given elements.
\<close>

datatype Sched = Forwarder | Mutator Elements

fun sched_step :: "Sched \<Rightarrow> Config \<Rightarrow> Config" where
  "sched_step Forwarder c = forwarder_step c"
| "sched_step (Mutator els) c = c\<lparr>world := graph_mutate els (world c)\<rparr>"

fun run :: "Sched list \<Rightarrow> Config \<Rightarrow> Config" where
  "run [] c = c"
| "run (s # ss) c = run ss (sched_step s c)"

text \<open>The statements between the snapshot and the release of the lock.\<close>

definition after_snapshot :: "PC \<Rightarrow> bool" where
  "after_snapshot p = (p = at_SendMessageToMaster \<or> p = at_AddEventListener \<or> p = at_RUnlock)"

subsection \<open>The graph events and the table of messages\<close>

text \<open>
  The six events of the graph's \<open>EventListener\<close> interface, and their delivery to the forwarder:
  each event calls the callback of its name.
\<close>

datatype GraphEvent =
    NodeUpdated Node "PartiallyUpdatedOp list"
  | NodeAdded Node
  | NodeDeleted Node
  | EdgeUpdated Edge "PartiallyUpdatedOp list"
  | EdgeAdded Edge
  | EdgeDeleted Edge

fun deliver :: "GraphEvent \<Rightarrow> World \<Rightarrow> World" where
  "deliver (NodeUpdated n ops) w = OnNodeUpdated n ops w"
| "deliver (NodeAdded n) w = OnNodeAdded n w"
| "deliver (NodeDeleted n) w = OnNodeDeleted n w"
| "deliver (EdgeUpdated e ops) w = OnEdgeUpdated e ops w"
| "deliver (EdgeAdded e) w = OnEdgeAdded e w"
| "deliver (EdgeDeleted e) w = OnEdgeDeleted e w"

text \<open>
  The specification's table from graph events to messages, written from its rows: the type
  tag of each event, and its payload.
\<close>

fun table_type :: "GraphEvent \<Rightarrow> MsgType" where
  "table_type (NodeAdded _) = NodeAddedMsgType"
| "table_type (NodeDeleted _) = NodeDeletedMsgType"
| "table_type (NodeUpdated _ _) = NodePartiallyUpdatedMsgType"
| "table_type (EdgeAdded _) = EdgeAddedMsgType"
| "table_type (EdgeDeleted _) = EdgeDeletedMsgType"
| "table_type (EdgeUpdated _ _) = EdgePartiallyUpdatedMsgType"

fun table_payload :: "GraphEvent \<Rightarrow> Obj" where
  "table_payload (NodeAdded n) = ObjNode n"
| "table_payload (NodeDeleted n) = ObjNode n"
| "table_payload (NodeUpdated n ops) =
     ObjPartiallyUpdatedMsg (PartiallyUpdatedMsg.make (Node.ID n) (Node.UpdatedAt n) (Node.Revision n) ops)"
| "table_payload (EdgeAdded e) = ObjEdge e"
| "table_payload (EdgeDeleted e) = ObjEdge e"
| "table_payload (EdgeUpdated e ops) =
     ObjPartiallyUpdatedMsg (PartiallyUpdatedMsg.make (Edge.ID e) (Edge.UpdatedAt e) (Edge.Revision e) ops)"

definition table_message :: "GraphEvent \<Rightarrow> StructMessage" where
  "table_message ev = NewStructMessage (table_type ev) (table_payload ev)"

subsection \<open>Notions used to state the properties of the forwarder\<close>


text \<open>The last \<open>n\<close> calls of the trace, oldest first.\<close>

definition recent_calls :: "nat \<Rightarrow> World \<Rightarrow> Call list" where
  "recent_calls n w = rev (take n (rev (calls w)))"

text \<open>The full-sync message for a collection of elements.\<close>

definition sync_of :: "Elements \<Rightarrow> StructMessage" where
  "sync_of els = NewStructMessage SyncMsgType (ObjSyncMsg \<lparr>Elements = els\<rparr>)"

text \<open>
  What holds at each statement of \<open>OnNewMaster\<close> whatever the other thread does: between
  \<open>RLock\<close> and \<open>RUnlock\<close> a read lock is held; once the snapshot is taken and until the lock is
  released the graph still has the elements of the snapshot, and the calls made since the
  snapshot follow it in the trace with nothing in between.
\<close>

definition locked_inv :: "Config \<Rightarrow> bool" where
  "locked_inv c =
     ((pc c \<in> {at_resync_Infof, at_Elements, at_SendMessageToMaster, at_AddEventListener, at_RUnlock}
         \<longrightarrow> 0 < rlocks (world c)) \<and>
      (after_snapshot (pc c) \<longrightarrow> elements (world c) = Elements (msg c)) \<and>
      (pc c = at_SendMessageToMaster \<longrightarrow> recent_calls 1 (world c) = [GraphElements]) \<and>
      (pc c = at_AddEventListener \<longrightarrow>
         recent_calls 2 (world c) = [GraphElements, SendMessageToMaster (sync_of (Elements (msg c)))]) \<and>
      (pc c = at_RUnlock \<longrightarrow> listening (world c) \<and>
         recent_calls 3 (world c) =
           [GraphElements, SendMessageToMaster (sync_of (Elements (msg c))), AddEventListener]))"

text \<open>A small graph, a peer and a world to evaluate the forwarder on.\<close>

definition node1 :: Node where
  "node1 = \<lparr>Node.ID = ''n1'', Metadata = [(''Name'', ''eth0'')], UpdatedAt = 100, Revision = 1\<rparr>"

definition node2 :: Node where
  "node2 = \<lparr>Node.ID = ''n2'', Metadata = [(''Name'', ''br0'')], UpdatedAt = 120, Revision = 3\<rparr>"

definition edge1 :: Edge where
  "edge1 = \<lparr>Edge.ID = ''e1'', Metadata = [(''RelationType'', ''layer2'')], Parent = ''n2'',
            Child = ''n1'', UpdatedAt = 130, Revision = 1\<rparr>"

definition peerP :: Speaker where
  "peerP = \<lparr>addr = ''10.0.0.1'', port = 8082\<rparr>"

definition peerQ :: Speaker where
  "peerQ = \<lparr>addr = ''10.0.0.2'', port = 8082\<rparr>"

definition graph1 :: Elements where
  "graph1 = \<lparr>Nodes = [node1, node2], Edges = [edge1]\<rparr>"

definition graph2 :: Elements where
  "graph2 = \<lparr>Nodes = [node1], Edges = []\<rparr>"

definition synced_world :: World where
  "synced_world =
     \<lparr>elements = graph1, listening = True, rlocks = 0, master = Some peerP, outbox = [],
      exit_status = None, calls = []\<rparr>"

definition unsynced_world :: World where
  "unsynced_world =
     \<lparr>elements = graph1, listening = False, rlocks = 0, master = Some peerQ,
      outbox = [(peerP, NewStructMessage NodeAddedMsgType (ObjNode node1))],
      exit_status = None, calls = [Warning ''earlier'']\<rparr>"

section \<open>Etcd client (graffiti/etcd/client/client.go)\<close>

subsection \<open>Errors\<close>

text \<open>
  An error is either one the store's client library returns, or a \<open>*strconv.NumError\<close> with the
  name of the failing function, the input and the cause.
\<close>

datatype NumErr = ErrSyntax | ErrRange

record NumError =
  Func :: string
  Num :: string
  Err :: NumErr

datatype error = StoreError string | ParseError NumError

definition syntaxError :: "string \<Rightarrow> string \<Rightarrow> NumError" where
  "syntaxError fn str = \<lparr>Func = fn, Num = str, Err = ErrSyntax\<rparr>"

definition rangeError :: "string \<Rightarrow> string \<Rightarrow> NumError" where
  "rangeError fn str = \<lparr>Func = fn, Num = str, Err = ErrRange\<rparr>"

subsection \<open>\<open>strconv.ParseInt(s, 10, 64)\<close> and \<open>strconv.FormatInt(i, 10)\<close>\<close>

text \<open>
  The two functions of Go's standard library that the client calls, at the base and bit size it
  passes. \<open>uint64\<close> values are naturals below \<open>2 ^ 64\<close>, with the wrap-around of the
  arithmetic written out; \<open>int64\<close> values are integers, with the conversion from \<open>uint64\<close>
  written out.
\<close>

definition maxUint64 :: nat where
  "maxUint64 = 2 ^ 64 - 1"

definition lower :: "nat \<Rightarrow> nat" where
  "lower c = or c 32"

text \<open>The digit a byte stands for, if any: the \<open>switch\<close> of the loop of \<open>ParseUint\<close>.\<close>

definition digit_of :: "char \<Rightarrow> nat option" where
  "digit_of c =
     (let b = (of_char c :: nat)
      in if 48 \<le> b \<and> b \<le> 57 then Some (b - 48)
         else if 97 \<le> lower b \<and> lower b \<le> 122 then Some (lower b - 97 + 10)
         else None)"

fun ParseUint_loop :: "string \<Rightarrow> nat \<Rightarrow> string \<Rightarrow> nat \<times> NumError option" where
  "ParseUint_loop s0 n [] = (n, None)"
| "ParseUint_loop s0 n (c # cs) =
     (case digit_of c of
        None \<Rightarrow> (0, Some (syntaxError ''ParseUint'' s0))
      | Some d \<Rightarrow>
          if d \<ge> 10 then (0, Some (syntaxError ''ParseUint'' s0))
          else if n \<ge> maxUint64 div 10 + 1 then (maxUint64, Some (rangeError ''ParseUint'' s0))
          else
            (let n' = (n * 10) mod 2 ^ 64;
                 n1 = (n' + d) mod 2 ^ 64
             in if n1 < n' \<or> n1 > maxUint64 then (maxUint64, Some (rangeError ''ParseUint'' s0))
                else ParseUint_loop s0 n1 cs))"

definition ParseUint :: "string \<Rightarrow> nat \<times> NumError option" where
  "ParseUint s =
     (if s = [] then (0, Some (syntaxError ''ParseUint'' s))
      else ParseUint_loop s 0 s)"

text \<open>The conversion \<open>int64(un)\<close> of a \<open>uint64\<close>, and the negation of an \<open>int64\<close>.\<close>

definition int64 :: "int \<Rightarrow> int" where
  "int64 x = (x + 2 ^ 63) mod 2 ^ 64 - 2 ^ 63"

definition ParseInt :: "string \<Rightarrow> int \<times> NumError option" where
  "ParseInt s =
     (case s of
        [] \<Rightarrow> (0, Some (syntaxError ''ParseInt'' s))
      | c # cs \<Rightarrow>
          (let s0 = s;
               (neg, s') = (if c = CHR ''+'' then (False, cs)
                            else if c = CHR ''-'' then (True, cs)
                            else (False, s));
               (un, err) = ParseUint s';
               cutoff = (2 ^ 63 :: nat)
           in if err \<noteq> None \<and> Err (the err) \<noteq> ErrRange
              then (0, Some ((the err)\<lparr>Func := ''ParseInt'', Num := s0\<rparr>))
              else if \<not> neg \<and> un \<ge> cutoff
              then (int (cutoff - 1), Some (rangeError ''ParseInt'' s0))
              else if neg \<and> un > cutoff
              then (- int cutoff, Some (rangeError ''ParseInt'' s0))
              else (let n = int64 (int un)
                    in (if neg then int64 (- n) else n, None))))"

fun digits10 :: "nat \<Rightarrow> string" where
  "digits10 n =
     (if n < 10 then [char_of (48 + n)]
      else digits10 (n div 10) @ [char_of (48 + n mod 10)])"

definition FormatInt :: "int \<Rightarrow> string" where
  "FormatInt i = (if i < 0 then CHR ''-'' # digits10 (nat (- i)) else digits10 (nat i))"

subsection \<open>The coordination store and the clock as state\<close>

text \<open>What the client does to its collaborators, in order.\<close>

datatype ClientCall =
    KeysGet string
  | KeysSet string string
  | Errorf string error
  | Sleep int

text \<open>
  The store behind \<open>KeysAPI\<close>, the clock and the logger: the keys with their values, the answer
  of the cluster to the request of each number (\<open>None\<close> when it serves the request, the error
  otherwise), the number of requests made so far, the time in seconds, and the trace of calls.
\<close>

record Etcd =
  keys :: "string \<Rightarrow> string option"
  fault :: "nat \<Rightarrow> error option"
  requests :: nat
  now :: int
  trace :: "ClientCall list"

record Client =
  id :: string

text \<open>
  \<open>KeysAPI.Get\<close> and \<open>KeysAPI.Set\<close> of the etcd client library, with nil options: a request the
  cluster does not serve returns the cluster's error; \<open>Get\<close> of a key that is not there returns
  the library's error for it; \<open>Set\<close> writes the value whether or not the key exists.
\<close>

definition KeysAPI_Get :: "string \<Rightarrow> Etcd \<Rightarrow> (error + string) \<times> Etcd" where
  "KeysAPI_Get key e =
     (let e' = e\<lparr>requests := Suc (requests e), trace := trace e @ [KeysGet key]\<rparr>
      in case fault e (requests e) of
           Some err \<Rightarrow> (Inl err, e')
         | None \<Rightarrow>
             (case keys e key of
                None \<Rightarrow> (Inl (StoreError ''Key not found''), e')
              | Some v \<Rightarrow> (Inr v, e')))"

definition KeysAPI_Set :: "string \<Rightarrow> string \<Rightarrow> Etcd \<Rightarrow> error option \<times> Etcd" where
  "KeysAPI_Set key v e =
     (let e' = e\<lparr>requests := Suc (requests e), trace := trace e @ [KeysSet key v]\<rparr>
      in case fault e (requests e) of
           Some err \<Rightarrow> (Some err, e')
         | None \<Rightarrow> (None, e'\<lparr>keys := (keys e)(key \<mapsto> v)\<rparr>))"

definition logger_Errorf :: "string \<Rightarrow> error \<Rightarrow> Etcd \<Rightarrow> Etcd" where
  "logger_Errorf fmt err e = e\<lparr>trace := trace e @ [Errorf fmt err]\<rparr>"

text \<open>\<open>time.Sleep(d)\<close>, with \<open>d\<close> in seconds: the clock has advanced by \<open>d\<close> when it returns.\<close>

definition time_Sleep :: "int \<Rightarrow> Etcd \<Rightarrow> Etcd" where
  "time_Sleep d e = e\<lparr>now := now e + d, trace := trace e @ [Sleep d]\<rparr>"

subsection \<open>The client\<close>

definition GetInt64 :: "Client \<Rightarrow> string \<Rightarrow> Etcd \<Rightarrow> (int \<times> error option) \<times> Etcd" where
  "GetInt64 client key e =
     (case KeysAPI_Get key e of
        (Inl err, e') \<Rightarrow> ((0, Some err), e')
      | (Inr v, e') \<Rightarrow>
          (let (i, err) = ParseInt v
           in ((i, map_option ParseError err), e')))"

definition SetInt64 :: "Client \<Rightarrow> string \<Rightarrow> int \<Rightarrow> Etcd \<Rightarrow> error option \<times> Etcd" where
  "SetInt64 client key v e = KeysAPI_Set key (FormatInt v) e"

definition start_time_key :: "Client \<Rightarrow> string" where
  "start_time_key client = ''/client:'' @ id client @ ''/start-time''"

text \<open>
  The loop of \<open>Start\<close> has no bound: the function is partial, and \<open>None\<close> is the call that
  never returns.
\<close>

partial_function (option) Start :: "Client \<Rightarrow> Etcd \<Rightarrow> Etcd option" where
  "Start client e =
     (case SetInt64 client (start_time_key client) (now e) e of
        (Some err, e') \<Rightarrow>
          Start client (time_Sleep 1 (logger_Errorf ''Etcd server not ready: %s'' err e'))
      | (None, e') \<Rightarrow> Some e')"

text \<open>
  A decimal integer as the specification means it: an optional sign and at least one decimal
  digit; and the integer it denotes.
\<close>

definition is_digit :: "char \<Rightarrow> bool" where
  "is_digit c = (48 \<le> (of_char c :: nat) \<and> (of_char c :: nat) \<le> 57)"

fun digits_value :: "nat \<Rightarrow> string \<Rightarrow> nat" where
  "digits_value n [] = n"
| "digits_value n (c # cs) = digits_value (10 * n + (of_char c - 48)) cs"

definition unsigned_part :: "string \<Rightarrow> string" where
  "unsigned_part s =
     (case s of
        [] \<Rightarrow> []
      | c # cs \<Rightarrow> if c = CHR ''+'' \<or> c = CHR ''-'' then cs else s)"

definition valid_decimal :: "string \<Rightarrow> bool" where
  "valid_decimal s = (unsigned_part s \<noteq> [] \<and> list_all is_digit (unsigned_part s))"

definition decimal_value :: "string \<Rightarrow> int" where
  "decimal_value s =
     (case s of
        [] \<Rightarrow> 0
      | c # cs \<Rightarrow> if c = CHR ''-'' then - int (digits_value 0 cs)
                 else int (digits_value 0 (unsigned_part s)))"

subsection \<open>Notions used to state the properties of the client\<close>

text \<open>The \<open>int64\<close> nearest to an integer: what \<open>ParseInt\<close> returns next to a range error.\<close>

definition clamp64 :: "int \<Rightarrow> int" where
  "clamp64 v = (if v < - (2 ^ 63) then - (2 ^ 63) else if v \<ge> 2 ^ 63 then 2 ^ 63 - 1 else v)"




text \<open>A client and three stores to evaluate the client on: one that serves every request, one
  that serves none, and one that rejects the first two requests.\<close>

definition agent :: Client where
  "agent = \<lparr>id = ''agent1''\<rparr>"

definition refused :: error where
  "refused = StoreError ''connection refused''"

definition store_up :: Etcd where
  "store_up =
     \<lparr>keys = [''/ttl'' \<mapsto> ''-42'', ''/name'' \<mapsto> ''12x'', ''/big'' \<mapsto> ''9223372036854775808''],
      fault = (\<lambda>i. None), requests = 0, now = 1700000000, trace = []\<rparr>"

definition store_down :: Etcd where
  "store_down = store_up\<lparr>fault := (\<lambda>i. Some refused)\<rparr>"


section \<open>Properties of the forwarder\<close>

subsection \<open>Calls and fields after a resync and after \<open>OnNewMaster\<close>\<close>

lemmas world_ops =
  record_call_def logger_Infof_def logger_Warning_def os_Exit_def graph_RLock_def
  graph_RUnlock_def graph_Elements_def graph_AddEventListener_def
  graph_RemoveEventListener_def masterElection_SendMessageToMaster_def



lemma OnNewMaster_Some_calls:
  "calls (OnNewMaster (Some sp) w) = calls w @
     [Infof ''Using %s:%d as master of topology forwarder'' [ArgString (addr sp), ArgInt (port sp)],
      RLock,
      Infof ''Start a re-sync'' [],
      GraphElements,
      SendMessageToMaster (NewStructMessage SyncMsgType (ObjSyncMsg \<lparr>Elements = elements w\<rparr>)),
      AddEventListener,
      RUnlock]"
  by (simp add: OnNewMaster_def GetAddrPort_def triggerResync_def world_ops Let_def split: option.split)



lemma uninterrupted:
  "world (run [Forwarder, Forwarder, Forwarder, Forwarder, Forwarder, Forwarder, Forwarder] (start sp w))
     = OnNewMaster (Some sp) w"
  by (simp add: start_def forwarder_step_def OnNewMaster_def GetAddrPort_def triggerResync_def world_ops Let_def split: option.split)

subsection \<open>The lock is held from the snapshot to the registration\<close>

lemma locked_inv_step: "locked_inv c \<Longrightarrow> locked_inv (sched_step s c)"
  by (cases s; cases "pc c")
     (auto simp: locked_inv_def after_snapshot_def forwarder_step_def graph_mutate_def
        GetAddrPort_def world_ops Let_def recent_calls_def sync_of_def split: option.split)

lemma locked_inv_run: "locked_inv c \<Longrightarrow> locked_inv (run ss c)"
  by (induction ss arbitrary: c) (simp_all add: locked_inv_step)

lemma locked_inv_start: "locked_inv (start sp w)"
  by (simp add: locked_inv_def start_def after_snapshot_def)

text \<open>
  C1. For a speaker that is not nil, \<open>OnNewMaster\<close> performs the resync as one sequence under
  a single acquisition of the graph's lock: after logging it takes the read lock once, takes
  the snapshot of the graph's elements, sends the \<open>SyncMsg\<close> with that snapshot, only then
  registers the forwarder as the graph's event listener, and releases the lock last. The
  statement-by-statement run without interruption is the same function. Under every schedule
  of the forwarder's statements and the attempts of another thread to mutate the graph, from the
  snapshot until the release of the lock a read lock is held and the graph has the elements of
  the snapshot; when the listener has just been registered, the last three calls of the trace
  are the snapshot, the \<open>SyncMsg\<close> of the graph's present elements and the registration, with
  no completed mutation between them.
\<close>

theorem OnNewMaster_resync_under_one_lock:
  "calls (OnNewMaster (Some sp) w) = calls w @
     [Infof ''Using %s:%d as master of topology forwarder'' [ArgString (addr sp), ArgInt (port sp)],
      RLock,
      Infof ''Start a re-sync'' [],
      GraphElements,
      SendMessageToMaster (sync_of (elements w)),
      AddEventListener,
      RUnlock]
   \<and> world (run [Forwarder, Forwarder, Forwarder, Forwarder, Forwarder, Forwarder, Forwarder]
        (start sp w)) = OnNewMaster (Some sp) w
   \<and> (let c = run ss (start sp w)
      in (after_snapshot (pc c) \<longrightarrow>
            0 < rlocks (world c) \<and> elements (world c) = Elements (msg c))
       \<and> (pc c = at_RUnlock \<longrightarrow>
            listening (world c) \<and>
            recent_calls 3 (world c) =
              [GraphElements, SendMessageToMaster (sync_of (elements (world c))),
               AddEventListener]))"
proof -
  have inv: "locked_inv (run ss (start sp w))"
    by (rule locked_inv_run [OF locked_inv_start])
  have seq: "calls (OnNewMaster (Some sp) w) = calls w @
     [Infof ''Using %s:%d as master of topology forwarder'' [ArgString (addr sp), ArgInt (port sp)],
      RLock, Infof ''Start a re-sync'' [], GraphElements,
      SendMessageToMaster (sync_of (elements w)), AddEventListener, RUnlock]"
    by (simp add: OnNewMaster_Some_calls sync_of_def)
  have conc: "let c = run ss (start sp w)
      in (after_snapshot (pc c) \<longrightarrow>
            0 < rlocks (world c) \<and> elements (world c) = Elements (msg c))
       \<and> (pc c = at_RUnlock \<longrightarrow>
            listening (world c) \<and>
            recent_calls 3 (world c) =
              [GraphElements, SendMessageToMaster (sync_of (elements (world c))),
               AddEventListener])"
    using inv unfolding Let_def locked_inv_def after_snapshot_def by auto
  from seq uninterrupted conc show ?thesis
    by blast
qed

theorem OnNewMaster_resync_under_one_lock_witness:
  "after_snapshot (pc (run [Forwarder, Forwarder, Forwarder, Forwarder, Mutator graph2, Forwarder,
       Forwarder] (start peerP unsynced_world)))
   \<and> pc (run [Forwarder, Forwarder, Forwarder, Forwarder, Mutator graph2, Forwarder,
       Forwarder] (start peerP unsynced_world)) = at_RUnlock
   \<and> elements (world (run [Forwarder, Forwarder, Forwarder, Forwarder, Mutator graph2, Forwarder,
       Forwarder] (start peerP unsynced_world))) = graph1
   \<and> recent_calls 3 (world (run [Forwarder, Forwarder, Forwarder, Forwarder, Mutator graph2,
       Forwarder, Forwarder] (start peerP unsynced_world))) =
       [GraphElements, SendMessageToMaster (sync_of graph1), AddEventListener]"
proof -
  let ?c = "run [Forwarder, Forwarder, Forwarder, Forwarder, Mutator graph2, Forwarder,
       Forwarder] (start peerP unsynced_world)"
  have pc: "pc ?c = at_RUnlock"
    by (simp add: start_def forwarder_step_def GetAddrPort_def world_ops graph_mutate_def
          unsynced_world_def Let_def)
  have snap: "Elements (msg ?c) = graph1"
    by (simp add: start_def forwarder_step_def GetAddrPort_def world_ops graph_mutate_def
          unsynced_world_def Let_def)
  have after: "after_snapshot (pc ?c)"
    unfolding pc by (simp add: after_snapshot_def)
  from OnNewMaster_resync_under_one_lock [of peerP unsynced_world
      "[Forwarder, Forwarder, Forwarder, Forwarder, Mutator graph2, Forwarder, Forwarder]"]
  have "elements (world ?c) = Elements (msg ?c)"
    and "recent_calls 3 (world ?c) =
       [GraphElements, SendMessageToMaster (sync_of (elements (world ?c))), AddEventListener]"
    using pc after unfolding Let_def by blast+
  with pc after snap show ?thesis
    by simp
qed




text \<open>
  C3. For a nil speaker, \<open>OnNewMaster\<close> logs a warning, removes the forwarder as the graph's
  event listener and then exits the process with status 1, which is not zero; these are all
  its calls, so nothing is sent and nothing is tried again; the graph, the master and the lock
  count are as before.
\<close>

theorem OnNewMaster_nil_exits:
  "calls (OnNewMaster None w) =
     calls w @ [Warning ''Lost connection to master'', RemoveEventListener, Exit 1]
   \<and> \<not> listening (OnNewMaster None w)
   \<and> exit_status (OnNewMaster None w) = Some 1
   \<and> outbox (OnNewMaster None w) = outbox w
   \<and> elements (OnNewMaster None w) = elements w
   \<and> master (OnNewMaster None w) = master w
   \<and> rlocks (OnNewMaster None w) = rlocks w"
  by (simp add: OnNewMaster_def world_ops Let_def)

subsection \<open>Graph events\<close>

lemma deliver_table:
  "deliver ev w = masterElection_SendMessageToMaster (table_message ev) w"
  by (cases ev)
     (simp_all add: OnNodeUpdated_def OnNodeAdded_def OnNodeDeleted_def OnEdgeUpdated_def
        OnEdgeAdded_def OnEdgeDeleted_def table_message_def PartiallyUpdatedMsg.make_def)

text \<open>
  C4. For every graph event delivered to the forwarder, the callback makes exactly one call of
  \<open>SendMessageToMaster\<close>, with the message of the specification's table for that event; when
  the election has a master, exactly that one message is appended to the messages handed to
  the master's channel.
\<close>

theorem graph_event_sends_table_message:
  "calls (deliver ev w) = calls w @ [SendMessageToMaster (table_message ev)]
   \<and> (master w = Some p \<longrightarrow> outbox (deliver ev w) = outbox w @ [(p, table_message ev)])"
  by (simp add: deliver_table world_ops split: option.split)

theorem graph_event_sends_table_message_witness:
  "master synced_world = Some peerP
   \<and> outbox (deliver (NodeUpdated node2 [PartiallyUpdatedOp 0 ''Name'' ''br1'']) synced_world) =
       [(peerP, NewStructMessage NodePartiallyUpdatedMsgType
           (ObjPartiallyUpdatedMsg
              \<lparr>PartiallyUpdatedMsg.ID = ''n2'', UpdatedAt = 120, Revision = 3,
               Ops = [PartiallyUpdatedOp 0 ''Name'' ''br1'']\<rparr>))]"
proof -
  have h: "master synced_world = Some peerP"
    by (simp add: synced_world_def)
  have o: "outbox synced_world = []"
    by (simp add: synced_world_def)
  have t: "table_message (NodeUpdated node2 [PartiallyUpdatedOp 0 ''Name'' ''br1'']) =
       NewStructMessage NodePartiallyUpdatedMsgType
           (ObjPartiallyUpdatedMsg
              \<lparr>PartiallyUpdatedMsg.ID = ''n2'', UpdatedAt = 120, Revision = 3,
               Ops = [PartiallyUpdatedOp 0 ''Name'' ''br1'']\<rparr>)"
    by (simp add: table_message_def node2_def PartiallyUpdatedMsg.make_def)
  from graph_event_sends_table_message
         [of "NodeUpdated node2 [PartiallyUpdatedOp 0 ''Name'' ''br1'']" synced_world peerP] h
  have "outbox (deliver (NodeUpdated node2 [PartiallyUpdatedOp 0 ''Name'' ''br1'']) synced_world) =
          outbox synced_world @
          [(peerP, table_message (NodeUpdated node2 [PartiallyUpdatedOp 0 ''Name'' ''br1'']))]"
    by blast
  with h o t show ?thesis
    by simp
qed

text \<open>
  C5. Every graph-event callback leaves the graph's elements, the registration of the listener,
  the lock count, the election's master and the exit status unchanged: the world after the
  callback differs from the world before at most in the messages handed to the master and in
  the trace of calls.
\<close>

theorem graph_event_frame:
  "elements (deliver ev w) = elements w
   \<and> listening (deliver ev w) = listening w
   \<and> rlocks (deliver ev w) = rlocks w
   \<and> master (deliver ev w) = master w
   \<and> exit_status (deliver ev w) = exit_status w
   \<and> deliver ev w = w\<lparr>outbox := outbox (deliver ev w), calls := calls (deliver ev w)\<rparr>"
  by (simp add: deliver_table world_ops split: option.split)

subsection \<open>Resync\<close>





section \<open>Properties of the etcd client\<close>

subsection \<open>\<open>ParseInt\<close> against the decimal notation\<close>

lemma digit_of_digit: "is_digit c \<Longrightarrow> digit_of c = Some (of_char c - 48)"
  by (simp add: is_digit_def digit_of_def Let_def)

lemma digit_lt_10: "is_digit c \<Longrightarrow> (of_char c :: nat) - 48 < 10"
  unfolding is_digit_def by arith

lemma digit_of_nondigit:
  "\<not> is_digit c \<Longrightarrow> digit_of c = None \<or> (\<exists>d. digit_of c = Some d \<and> 10 \<le> d)"
  by (auto simp: is_digit_def digit_of_def Let_def)

lemma digits_value_ge: "n \<le> digits_value n cs"
proof (induction cs arbitrary: n)
  case Nil
  show ?case by simp
next
  case (Cons c cs)
  have "n \<le> 10 * n + (of_char c - 48)" by simp
  also have "\<dots> \<le> digits_value (10 * n + (of_char c - 48)) cs" by (rule Cons.IH)
  finally show ?case by simp
qed

lemma ParseUint_loop_digits:
  "list_all is_digit cs \<Longrightarrow> n < 2 ^ 64 \<Longrightarrow>
   ParseUint_loop s0 n cs =
     (if digits_value n cs < 2 ^ 64 then (digits_value n cs, None)
      else (maxUint64, Some (rangeError ''ParseUint'' s0)))"
proof (induction cs arbitrary: n)
  case Nil
  then show ?case by simp
next
  case (Cons c cs)
  let ?d = "of_char c - 48 :: nat"
  from Cons.prems have dig: "is_digit c" and rest: "list_all is_digit cs" by simp_all
  have d: "?d < 10" by (rule digit_lt_10 [OF dig])
  have ge: "10 * n + ?d \<le> digits_value (10 * n + ?d) cs" by (rule digits_value_ge)
  show ?case
  proof (cases "n \<ge> maxUint64 div 10 + 1")
    case True
    then have "digits_value (10 * n + ?d) cs \<ge> 2 ^ 64"
      using ge by (simp add: maxUint64_def)
    with True d show ?thesis
      by (simp add: digit_of_digit [OF dig])
  next
    case False
    then have small: "n * 10 < 2 ^ 64"
      by (simp add: maxUint64_def)
    show ?thesis
    proof (cases "10 * n + ?d < 2 ^ 64")
      case True
      then have m: "(n * 10 mod 2 ^ 64 + ?d) mod 2 ^ 64 = 10 * n + ?d"
        using small by (simp add: mult.commute)
      from Cons.IH [OF rest True] False d small True show ?thesis
        by (simp add: digit_of_digit [OF dig] Let_def m maxUint64_def mult.commute)
    next
      case False2: False
      then have big: "digits_value (10 * n + ?d) cs \<ge> 2 ^ 64"
        using ge by simp
      have "(n * 10 mod 2 ^ 64 + ?d) mod 2 ^ 64 = 10 * n + ?d - 2 ^ 64"
        using small False2 d by (simp add: mult.commute mod_if)
      moreover have "10 * n + ?d - 2 ^ 64 < n * 10"
        using small False2 d by simp
      ultimately show ?thesis
        using False d small big
        by (simp add: digit_of_digit [OF dig] Let_def maxUint64_def)
    qed
  qed
qed

lemma ParseUint_loop_nondigits:
  "\<not> list_all is_digit cs \<Longrightarrow> snd (ParseUint_loop s0 n cs) \<noteq> None"
proof (induction cs arbitrary: n)
  case Nil
  then show ?case by simp
next
  case (Cons c cs)
  show ?case
  proof (cases "is_digit c")
    case True
    with Cons.prems have "\<not> list_all is_digit cs" by simp
    then have "\<And>m. snd (ParseUint_loop s0 m cs) \<noteq> None" by (rule Cons.IH)
    then show ?thesis
      by (simp add: digit_of_digit [OF True] Let_def rangeError_def syntaxError_def)
  next
    case False
    from digit_of_nondigit [OF this] show ?thesis
      by (auto simp: syntaxError_def)
  qed
qed

lemma ParseUint_digits:
  "cs \<noteq> [] \<Longrightarrow> list_all is_digit cs \<Longrightarrow>
   ParseUint cs =
     (if digits_value 0 cs < 2 ^ 64 then (digits_value 0 cs, None)
      else (maxUint64, Some (rangeError ''ParseUint'' cs)))"
  by (simp add: ParseUint_def ParseUint_loop_digits)

lemma ParseUint_invalid:
  "cs = [] \<or> \<not> list_all is_digit cs \<Longrightarrow> snd (ParseUint cs) \<noteq> None"
  using ParseUint_loop_nondigits [of cs cs 0] by (cases "cs = []") (simp_all add: ParseUint_def)

lemma ParseUint_loop_range_value:
  "snd (ParseUint_loop s0 n cs) = Some ne \<Longrightarrow> Err ne = ErrRange \<Longrightarrow>
   fst (ParseUint_loop s0 n cs) = maxUint64"
  by (induction s0 n cs rule: ParseUint_loop.induct)
     (auto simp: Let_def syntaxError_def rangeError_def split: option.splits if_splits)

lemma ParseUint_range_value:
  "snd (ParseUint cs) = Some ne \<Longrightarrow> Err ne = ErrRange \<Longrightarrow> fst (ParseUint cs) = maxUint64"
  by (cases "cs = []") (auto simp: ParseUint_def syntaxError_def ParseUint_loop_range_value)

lemma int64_id: "- (2 ^ 63) \<le> x \<Longrightarrow> x < 2 ^ 63 \<Longrightarrow> int64 x = x"
  by (simp add: int64_def)

lemma int64_neg: "0 \<le> x \<Longrightarrow> x \<le> 2 ^ 63 \<Longrightarrow> int64 (- int64 x) = - x"
proof (cases "x = 2 ^ 63")
  case True
  then show ?thesis by (simp add: int64_def)
next
  case False
  assume "0 \<le> x" "x \<le> 2 ^ 63"
  with False have "int64 x = x" "int64 (- x) = - x"
    by (simp_all add: int64_id)
  then show ?thesis by simp
qed

lemma ParseInt_unfold:
  "ParseInt (c # cs) =
     (let (un, err) = ParseUint (unsigned_part (c # cs)); neg = (c = CHR ''-'')
      in if err \<noteq> None \<and> Err (the err) \<noteq> ErrRange
         then (0, Some ((the err)\<lparr>Func := ''ParseInt'', Num := c # cs\<rparr>))
         else if \<not> neg \<and> un \<ge> 2 ^ 63
         then (int (2 ^ 63 - 1), Some (rangeError ''ParseInt'' (c # cs)))
         else if neg \<and> un > 2 ^ 63
         then (- int (2 ^ 63), Some (rangeError ''ParseInt'' (c # cs)))
         else (if neg then int64 (- int64 (int un)) else int64 (int un), None))"
  by (simp add: ParseInt_def unsigned_part_def Let_def split: prod.split)

lemma ParseInt_valid:
  assumes v: "valid_decimal s"
  shows "ParseInt s =
     (if - (2 ^ 63) \<le> decimal_value s \<and> decimal_value s < 2 ^ 63 then (decimal_value s, None)
      else (clamp64 (decimal_value s), Some (rangeError ''ParseInt'' s)))"
proof -
  from v obtain c cs where s: "s = c # cs"
    by (cases s) (auto simp: valid_decimal_def unsigned_part_def)
  let ?u = "unsigned_part s"
  let ?n = "digits_value 0 ?u"
  from v have ne: "?u \<noteq> []" and dig: "list_all is_digit ?u"
    by (simp_all add: valid_decimal_def)
  have pu: "ParseUint ?u =
     (if ?n < 2 ^ 64 then (?n, None) else (maxUint64, Some (rangeError ''ParseUint'' ?u)))"
    by (rule ParseUint_digits [OF ne dig])
  have dv: "decimal_value s = (if c = CHR ''-'' then - int ?n else int ?n)"
    by (simp add: decimal_value_def s unsigned_part_def)
  note pi = ParseInt_unfold [of c cs, folded s]
  show ?thesis
  proof (cases "?n < 2 ^ 64")
    case small: True
    show ?thesis
    proof (cases "c = CHR ''-''")
      case neg: True
      show ?thesis
      proof (cases "?n \<le> 2 ^ 63")
        case True
        then have "int64 (- int64 (int ?n)) = - int ?n"
          by (intro int64_neg) simp_all
        with True small neg show ?thesis
          unfolding pi pu dv by (simp add: Let_def)
      next
        case False
        with small neg show ?thesis
          unfolding pi pu dv by (simp add: Let_def clamp64_def)
      qed
    next
      case pos: False
      show ?thesis
      proof (cases "?n < 2 ^ 63")
        case True
        then have "int64 (int ?n) = int ?n"
          by (intro int64_id) simp_all
        with True small pos show ?thesis
          unfolding pi pu dv by (simp add: Let_def)
      next
        case False
        with small pos show ?thesis
          unfolding pi pu dv by (simp add: Let_def clamp64_def)
      qed
    qed
  next
    case False
    then show ?thesis
      unfolding pi pu dv
      by (simp add: Let_def clamp64_def maxUint64_def rangeError_def)
  qed
qed

lemma ParseInt_invalid:
  assumes nv: "\<not> valid_decimal s"
  shows "\<exists>ne. snd (ParseInt s) = Some ne \<and> Func ne = ''ParseInt'' \<and> Num ne = s"
proof (cases s)
  case Nil
  then show ?thesis by (simp add: ParseInt_def syntaxError_def)
next
  case (Cons c cs)
  let ?u = "unsigned_part s"
  from nv have "?u = [] \<or> \<not> list_all is_digit ?u"
    by (auto simp: valid_decimal_def)
  then have "snd (ParseUint ?u) \<noteq> None" by (rule ParseUint_invalid)
  then obtain un ne0 where pu: "ParseUint ?u = (un, Some ne0)"
    by (cases "ParseUint ?u") auto
  note pi = ParseInt_unfold [of c cs, folded Cons]
  show ?thesis
  proof (cases "Err ne0")
    case ErrSyntax
    then show ?thesis
      unfolding pi pu by (simp add: Let_def)
  next
    case ErrRange
    with ParseUint_range_value [of ?u ne0] pu have "un = maxUint64" by simp
    with ErrRange show ?thesis
      unfolding pi pu by (simp add: Let_def maxUint64_def rangeError_def)
  qed
qed

lemma KeysAPI_Get_state:
  "snd (KeysAPI_Get key e) = e\<lparr>requests := Suc (requests e), trace := trace e @ [KeysGet key]\<rparr>"
  by (simp add: KeysAPI_Get_def Let_def split: option.split)

lemma KeysAPI_Get_served:
  "fault e (requests e) = None \<Longrightarrow> keys e key = Some v \<Longrightarrow> fst (KeysAPI_Get key e) = Inr v"
  by (simp add: KeysAPI_Get_def Let_def)

lemma GetInt64_served:
  assumes "fault e (requests e) = None" "keys e key = Some v"
  shows "GetInt64 client key e =
     ((fst (ParseInt v), map_option ParseError (snd (ParseInt v))),
      e\<lparr>requests := Suc (requests e), trace := trace e @ [KeysGet key]\<rparr>)"
  using assms by (simp add: GetInt64_def KeysAPI_Get_def Let_def split: prod.split)

subsection \<open>\<open>GetInt64\<close>\<close>

text \<open>
  C7, as stated: for every key whose stored value is a valid decimal integer, \<open>GetInt64\<close>
  returns that integer with no error. It does not for a decimal integer that is no \<open>int64\<close>:
  the value \<open>9223372036854775808\<close>, which is \<open>2 ^ 63\<close>, is a valid decimal integer, and
  \<open>GetInt64\<close> returns \<open>9223372036854775807\<close> with a range error.
\<close>

theorem GetInt64_out_of_range_counterexample:
  "valid_decimal ''9223372036854775808''
   \<and> decimal_value ''9223372036854775808'' = 9223372036854775808
   \<and> fst (GetInt64 agent ''/big'' store_up) =
       (9223372036854775807,
        Some (ParseError \<lparr>Func = ''ParseInt'', Num = ''9223372036854775808'', Err = ErrRange\<rparr>))"
  by (simp add: valid_decimal_def unsigned_part_def is_digit_def decimal_value_def
        GetInt64_def KeysAPI_Get_def store_up_def Let_def ParseInt_def ParseUint_def
        digit_of_def maxUint64_def rangeError_def int64_def)

text \<open>
  C7, amended. When the store serves the request and the key has the value \<open>v\<close>: if \<open>v\<close> is
  not a valid decimal integer, \<open>GetInt64\<close> returns a parse error of \<open>ParseInt\<close> for \<open>v\<close>; if
  \<open>v\<close> is a valid decimal integer from \<open>- 2 ^ 63\<close> to \<open>2 ^ 63 - 1\<close>, it returns that integer
  with no error; if \<open>v\<close> is a valid decimal integer outside that range, it returns the nearest
  \<open>int64\<close> with a range error. In each case the store has been asked exactly once.
\<close>

theorem GetInt64_parses_value:
  assumes "fault e (requests e) = None" and "keys e key = Some v"
  shows "(\<not> valid_decimal v \<longrightarrow>
            (\<exists>ne. snd (fst (GetInt64 client key e)) = Some (ParseError ne)
                  \<and> Func ne = ''ParseInt'' \<and> Num ne = v))
       \<and> (valid_decimal v \<and> - (2 ^ 63) \<le> decimal_value v \<and> decimal_value v < 2 ^ 63 \<longrightarrow>
            fst (GetInt64 client key e) = (decimal_value v, None))
       \<and> (valid_decimal v \<and> \<not> (- (2 ^ 63) \<le> decimal_value v \<and> decimal_value v < 2 ^ 63) \<longrightarrow>
            fst (GetInt64 client key e) =
              (clamp64 (decimal_value v), Some (ParseError (rangeError ''ParseInt'' v))))
       \<and> snd (GetInt64 client key e) =
            e\<lparr>requests := Suc (requests e), trace := trace e @ [KeysGet key]\<rparr>"
proof -
  note g = GetInt64_served [OF assms, of client]
  have a: "\<exists>ne. snd (fst (GetInt64 client key e)) = Some (ParseError ne)
                  \<and> Func ne = ''ParseInt'' \<and> Num ne = v" if "\<not> valid_decimal v"
    using ParseInt_invalid [OF that] unfolding g by auto
  have b: "fst (GetInt64 client key e) = (decimal_value v, None)"
    if "valid_decimal v" "- (2 ^ 63) \<le> decimal_value v" "decimal_value v < 2 ^ 63"
    using that unfolding g by (simp add: ParseInt_valid)
  have c: "fst (GetInt64 client key e) =
              (clamp64 (decimal_value v), Some (ParseError (rangeError ''ParseInt'' v)))"
    if "valid_decimal v" "\<not> (- (2 ^ 63) \<le> decimal_value v \<and> decimal_value v < 2 ^ 63)"
    using that unfolding g by (simp add: ParseInt_valid)
  have d: "snd (GetInt64 client key e) =
            e\<lparr>requests := Suc (requests e), trace := trace e @ [KeysGet key]\<rparr>"
    unfolding g by simp
  from a b c d show ?thesis by blast
qed

theorem GetInt64_parses_value_witness:
  "fault store_up (requests store_up) = None
   \<and> keys store_up ''/ttl'' = Some ''-42''
   \<and> valid_decimal ''-42''
   \<and> fst (GetInt64 agent ''/ttl'' store_up) = (- 42, None)
   \<and> keys store_up ''/name'' = Some ''12x''
   \<and> \<not> valid_decimal ''12x''
   \<and> snd (fst (GetInt64 agent ''/name'' store_up)) \<noteq> None
   \<and> keys store_up ''/big'' = Some ''9223372036854775808''
   \<and> valid_decimal ''9223372036854775808''
   \<and> snd (fst (GetInt64 agent ''/big'' store_up)) =
        Some (ParseError (rangeError ''ParseInt'' ''9223372036854775808''))"
proof -
  have f: "fault store_up (requests store_up) = None"
    by (simp add: store_up_def)
  have k1: "keys store_up ''/ttl'' = Some ''-42''"
    and k2: "keys store_up ''/name'' = Some ''12x''"
    and k3: "keys store_up ''/big'' = Some ''9223372036854775808''"
    by (simp_all add: store_up_def)
  have v1: "valid_decimal ''-42''" and d1: "decimal_value ''-42'' = - 42"
    by (simp_all add: valid_decimal_def unsigned_part_def is_digit_def decimal_value_def)
  have v2: "\<not> valid_decimal ''12x''"
    by (simp add: valid_decimal_def unsigned_part_def is_digit_def)
  have v3: "valid_decimal ''9223372036854775808''"
    and d3: "decimal_value ''9223372036854775808'' = 9223372036854775808"
    by (simp_all add: valid_decimal_def unsigned_part_def is_digit_def decimal_value_def)
  from GetInt64_parses_value [OF f k1, of agent] v1 d1
  have r1: "fst (GetInt64 agent ''/ttl'' store_up) = (- 42, None)"
    by simp
  from GetInt64_parses_value [OF f k2, of agent] v2
  have r2: "snd (fst (GetInt64 agent ''/name'' store_up)) \<noteq> None"
    by auto
  from GetInt64_parses_value [OF f k3, of agent] v3 d3
  have r3: "snd (fst (GetInt64 agent ''/big'' store_up)) =
        Some (ParseError (rangeError ''ParseInt'' ''9223372036854775808''))"
    by simp
  from f k1 k2 k3 v1 v2 v3 r1 r2 r3 show ?thesis
    by blast
qed

text \<open>
  C10. Whenever \<open>KeysAPI.Get\<close> fails, \<open>GetInt64\<close> returns the integer 0 together with the
  store's own error, whatever the key holds, after that single request: a non-nil error from
  the store implies that the returned value is 0.
\<close>

theorem GetInt64_store_error:
  "fst (KeysAPI_Get key e) = Inl err \<Longrightarrow>
   GetInt64 client key e =
     ((0, Some err), e\<lparr>requests := Suc (requests e), trace := trace e @ [KeysGet key]\<rparr>)"
  using KeysAPI_Get_state [of key e]
  by (cases "KeysAPI_Get key e") (simp add: GetInt64_def)

theorem GetInt64_store_error_witness:
  "fst (KeysAPI_Get ''/ttl'' store_down) = Inl refused
   \<and> keys store_down ''/ttl'' = Some ''-42''
   \<and> fst (GetInt64 agent ''/ttl'' store_down) = (0, Some refused)"
proof -
  have h: "fst (KeysAPI_Get ''/ttl'' store_down) = Inl refused"
    by (simp add: KeysAPI_Get_def store_down_def store_up_def Let_def)
  have k: "keys store_down ''/ttl'' = Some ''-42''"
    by (simp add: store_down_def store_up_def)
  from GetInt64_store_error [OF h, of agent] h k show ?thesis
    by simp
qed

subsection \<open>\<open>Start\<close>\<close>










end
